theory Spec2Isabelle
  imports Complex_Main "HOL-Library.Sublist"
begin

section \<open>Python strings\<close>

text \<open>
  A Python \<open>str\<close> is modelled as a HOL \<^typ>\<open>string\<close>: a list of characters with code
  points below 256. \<open>len\<close> is \<^const>\<open>length\<close>, concatenation and f-strings are \<open>@\<close>.
  The functions below are the \<open>str\<close> methods the backend calls, restricted to that range.
\<close>

text \<open>
  \<open>str.isspace\<close> on one character: the code points below 256 that Python counts as
  whitespace are 9 to 13, 28 to 31, 32, 133 and 160.
\<close>

definition isspace :: "char \<Rightarrow> bool" where
  "isspace c = (let n = (of_char c :: nat) in
     (9 \<le> n \<and> n \<le> 13) \<or> (28 \<le> n \<and> n \<le> 31) \<or> n = 32 \<or> n = 133 \<or> n = 160)"

text \<open>\<open>s.strip()\<close>: drop leading and trailing whitespace.\<close>

definition strip :: "string \<Rightarrow> string" where
  "strip s = rev (dropWhile isspace (rev (dropWhile isspace s)))"

text \<open>
  \<open>s.lower()\<close>: below 256 the upper-case letters are \<open>A\<close> to \<open>Z\<close> and the code points
  192 to 222 without 215; each maps to the code point 32 above it.
\<close>

definition lower_char :: "char \<Rightarrow> char" where
  "lower_char c = (let n = (of_char c :: nat) in
     if (65 \<le> n \<and> n \<le> 90) \<or> (192 \<le> n \<and> n \<le> 222 \<and> n \<noteq> 215)
     then char_of (n + 32) else c)"

definition lower :: "string \<Rightarrow> string" where
  "lower s = map lower_char s"

text \<open>\<open>s.endswith(suf)\<close>.\<close>

definition endswith :: "string \<Rightarrow> string \<Rightarrow> bool" where
  "endswith s suf = (length suf \<le> length s \<and> drop (length s - length suf) s = suf)"

text \<open>\<open>sep.join(xs)\<close>.\<close>

fun join :: "string \<Rightarrow> string list \<Rightarrow> string" where
  "join sep [] = []"
| "join sep [x] = x"
| "join sep (x # y # ys) = x @ sep @ join sep (y # ys)"

text \<open>\<open>str(n)\<close> for an integer: decimal digits, with a leading minus sign when negative.\<close>

definition digit_char :: "nat \<Rightarrow> char" where
  "digit_char d = ''0123456789'' ! d"

fun str_nat :: "nat \<Rightarrow> string" where
  "str_nat n = (if n < 10 then [digit_char n] else str_nat (n div 10) @ [digit_char (n mod 10)])"

declare str_nat.simps [simp del]

definition str_int :: "int \<Rightarrow> string" where
  "str_int i = (if i < 0 then CHR ''-'' # str_nat (nat (- i)) else str_nat (nat i))"

text \<open>\<open>needle in haystack\<close> on strings is \<^const>\<open>sublist\<close>.\<close>


section \<open>Exceptions\<close>

text \<open>
  The exceptions the backend raises or catches, each with the message \<open>str(e)\<close> gives.
  \<open>PyException\<close> is the builtin \<open>Exception\<close>.
\<close>

datatype exn =
    PyException string
  | PDFProcessingError string
  | KeyError string
  | AttributeError string

fun str_exn :: "exn \<Rightarrow> string" where
  "str_exn (PyException msg) = msg"
| "str_exn (PDFProcessingError msg) = msg"
| "str_exn (KeyError k) = [CHR 0x27] @ k @ [CHR 0x27]"
| "str_exn (AttributeError msg) = msg"


section \<open>prompt_templates.py\<close>

subsection \<open>Template rendering\<close>

text \<open>
  The templates are Jinja2 sources rendered by \<open>Template(src).render(**vars)\<close> with the
  default environment (no block trimming, no auto-escaping). A parsed template is a
  list of nodes: literal data, \<open>{{ name }}\<close>, and \<open>{% if name %} ... {% else %} ... {% endif %}\<close>.
\<close>

datatype jvalue = JNone | JBool bool | JInt int | JStr string

datatype node =
    Data string
  | Var string
  | IfNode string "node list" "node list"

type_synonym jcontext = "(string \<times> jvalue) list"

text \<open>Truth of a value in \<open>{% if %}\<close>: Python truthiness; an undefined name is false.\<close>

fun truthy :: "jvalue option \<Rightarrow> bool" where
  "truthy None = False"
| "truthy (Some JNone) = False"
| "truthy (Some (JBool b)) = b"
| "truthy (Some (JInt i)) = (i \<noteq> 0)"
| "truthy (Some (JStr s)) = (s \<noteq> [])"

text \<open>Output of \<open>{{ name }}\<close>: \<open>str(value)\<close>; an undefined name prints nothing.\<close>

fun to_str :: "jvalue option \<Rightarrow> string" where
  "to_str None = []"
| "to_str (Some JNone) = ''None''"
| "to_str (Some (JBool b)) = (if b then ''True'' else ''False'')"
| "to_str (Some (JInt i)) = str_int i"
| "to_str (Some (JStr s)) = s"

fun render_node :: "jcontext \<Rightarrow> node \<Rightarrow> string" where
  "render_node ctx (Data s) = s"
| "render_node ctx (Var v) = to_str (map_of ctx v)"
| "render_node ctx (IfNode v thn els) =
     (if truthy (map_of ctx v) then concat (map (render_node ctx) thn)
      else concat (map (render_node ctx) els))"

definition render :: "node list \<Rightarrow> jcontext \<Rightarrow> string" where
  "render template ctx = concat (map (render_node ctx) template)"

subsection \<open>The templates\<close>

definition concise_template :: "node list" where
  "concise_template =
   [Data ''\<newline>You are an expert text summarizer. Your task is to create a concise, accurate summary of the provided text.\<newline>\<newline>Instructions:\<newline>- Focus on the main ideas and key points\<newline>- Maintain the original meaning and context\<newline>- Use clear, professional language\<newline>- Avoid unnecessary details or repetition\<newline>'',
    IfNode ''max_length''
      [Data ''\<newline>- Keep the summary to approximately '', Var ''max_length'', Data '' words or less\<newline>'']
      [],
    Data ''\<newline>\<newline>Text to summarize:\<newline>'',
    Var ''text'',
    Data ''\<newline>\<newline>Summary:'']"

definition detailed_template :: "node list" where
  "detailed_template =
   [Data ''\<newline>You are an expert text summarizer. Your task is to create a comprehensive, detailed summary of the provided text.\<newline>\<newline>Instructions:\<newline>- Include all major points and important details\<newline>- Organize information logically\<newline>- Maintain the structure and flow of the original text\<newline>- Use clear, professional language\<newline>- Include relevant examples or data points mentioned\<newline>'',
    IfNode ''max_length''
      [Data ''\<newline>- Keep the summary to approximately '', Var ''max_length'', Data '' words or less\<newline>'']
      [],
    Data ''\<newline>\<newline>Text to summarize:\<newline>'',
    Var ''text'',
    Data ''\<newline>\<newline>Detailed Summary:'']"

text \<open>
  The source of the bullet-point template ends, after \<open>Bullet Point Summary:\<close> and a
  newline, with the three characters U+00E2, U+20AC, U+00A2. The middle one has no code
  point below 256; the three are written here with their Windows-1252 bytes
  \<open>0xE2 0x80 0xA2\<close>.
\<close>

definition bullet_glyph :: string where
  "bullet_glyph = [CHR 0xE2, CHR 0x80, CHR 0xA2]"

definition bullet_points_template :: "node list" where
  "bullet_points_template =
   [Data ''\<newline>You are an expert text summarizer. Your task is to create a bullet-point summary of the provided text.\<newline>\<newline>Instructions:\<newline>- Extract key points and present them as bullet points\<newline>- Use clear, concise language for each point\<newline>- Organize points logically (chronologically or by importance)\<newline>- Each bullet point should be self-contained and meaningful\<newline>'',
    IfNode ''max_length''
      [Data ''\<newline>- Limit to approximately '', Var ''max_length'', Data '' words total across all bullet points\<newline>'']
      [],
    Data ''\<newline>\<newline>Text to summarize:\<newline>'',
    Var ''text'',
    Data (''\<newline>\<newline>Bullet Point Summary:\<newline>'' @ bullet_glyph)]"

definition SUMMARIZATION_TEMPLATES :: "(string \<times> node list) list" where
  "SUMMARIZATION_TEMPLATES =
   [(''concise'', concise_template),
    (''detailed'', detailed_template),
    (''bullet_points'', bullet_points_template)]"

definition RAG_TEMPLATE :: "node list" where
  "RAG_TEMPLATE =
   [Data ''\<newline>You are an AI assistant specialized in answering questions based on provided context. Your task is to analyze the given context and provide accurate, helpful answers to user questions.\<newline>\<newline>Instructions:\<newline>- Base your answer strictly on the information provided in the context\<newline>- If the context doesn't contain enough information to answer the question, clearly state this\<newline>- Be precise and factual in your responses\<newline>- Use direct quotes from the context when appropriate\<newline>- If asked about something not covered in the context, explain that the information is not available\<newline>'',
    IfNode ''include_sources''
      [Data ''\<newline>- Include references to specific parts of the context that support your answer\<newline>'']
      [],
    Data ''\<newline>\<newline>Context:\<newline>'',
    Var ''context'',
    Data ''\<newline>\<newline>Question: '',
    Var ''question'',
    Data ''\<newline>\<newline>'',
    IfNode ''include_sources''
      [Data ''\<newline>Please provide your answer and include source references where applicable.\<newline>\<newline>Answer:\<newline>'']
      [Data ''\<newline>Answer:\<newline>'']]"

subsection \<open>Prompt functions\<close>

text \<open>
  \<open>SUMMARIZATION_TEMPLATES[style]\<close> raises \<open>KeyError\<close> on a missing key;
  \<open>get_summarization_prompt\<close> replaces a style that is not a key by \<open>"concise"\<close> first.
\<close>

definition max_length_value :: "int option \<Rightarrow> jvalue" where
  "max_length_value ml = (case ml of None \<Rightarrow> JNone | Some n \<Rightarrow> JInt n)"

definition get_summarization_prompt :: "string \<Rightarrow> int option \<Rightarrow> string \<Rightarrow> exn + string" where
  "get_summarization_prompt txt ml sty =
     (let sty' = (if map_of SUMMARIZATION_TEMPLATES sty = None then ''concise'' else sty) in
      case map_of SUMMARIZATION_TEMPLATES sty' of
        None \<Rightarrow> Inl (KeyError sty')
      | Some template \<Rightarrow>
          Inr (render template [(''text'', JStr txt), (''max_length'', max_length_value ml)]))"

definition get_rag_prompt :: "string \<Rightarrow> string \<Rightarrow> bool \<Rightarrow> string" where
  "get_rag_prompt q ctxt incl =
     render RAG_TEMPLATE
       [(''question'', JStr q), (''context'', JStr ctxt), (''include_sources'', JBool incl)]"


section \<open>config.py\<close>

text \<open>The settings the backend reads: the debug switch and the generation defaults.\<close>

record Settings =
  debug :: bool
  max_tokens :: int
  temperature :: rat


section \<open>gemini_client.py\<close>

text \<open>
  The remote model is a parameter: it maps the request that \<open>generate_content\<close> sends to
  what comes back. \<open>Raises\<close> covers an exception from the call or from reading
  \<open>response.text\<close>; \<open>Completion\<close> is the value of \<open>response.text\<close>.
\<close>

record generation_request =
  prompt :: string
  gen_temperature :: rat
  max_output_tokens :: int
  candidate_count :: nat

datatype remote_response = Raises string | Completion string

type_synonym remote_model = "generation_request \<Rightarrow> remote_response"


text \<open>
  Every function that may call the remote model returns, beside its result, the list of
  requests it sent, in order.
\<close>

type_synonym 'a traced = "generation_request list \<times> 'a"

text \<open>
  \<open>generate_text\<close>: the whole body is inside \<open>try\<close>, and the handler re-raises any
  exception \<open>e\<close> as \<open>Exception("Failed to generate text: " + str(e))\<close>; this includes the
  \<open>Exception("Empty response from Gemini API")\<close> raised when \<open>response.text\<close> is falsy.
\<close>

definition generate_text ::
  "Settings \<Rightarrow> remote_model \<Rightarrow> string \<Rightarrow> rat option \<Rightarrow> int option \<Rightarrow> (exn + string) traced" where
  "generate_text cfg model p temp_arg max_tokens_arg =
     (let temp = (case temp_arg of Some t \<Rightarrow> t | None \<Rightarrow> temperature cfg);
          max_tok = (case max_tokens_arg of Some m \<Rightarrow> m | None \<Rightarrow> max_tokens cfg);
          req = \<lparr>prompt = p, gen_temperature = temp, max_output_tokens = max_tok,
                 candidate_count = 1\<rparr>;
          body = (case model req of
                    Raises msg \<Rightarrow> Inl (PyException msg)
                  | Completion response_text \<Rightarrow>
                      if response_text = [] then Inl (PyException ''Empty response from Gemini API'')
                      else Inr (strip response_text))
      in ([req],
          case body of
            Inl e \<Rightarrow> Inl (PyException (''Failed to generate text: '' @ str_exn e))
          | Inr generated \<Rightarrow> Inr generated))"

text \<open>\<open>GeminiClient.summarize_text\<close> and \<open>GeminiClient.answer_question\<close>.\<close>

definition gemini_summarize_text ::
  "Settings \<Rightarrow> remote_model \<Rightarrow> string \<Rightarrow> int option \<Rightarrow> string \<Rightarrow> (exn + string) traced" where
  "gemini_summarize_text cfg model txt ml sty =
     (case get_summarization_prompt txt ml sty of
        Inl e \<Rightarrow> ([], Inl e)
      | Inr p \<Rightarrow> generate_text cfg model p (Some (3 / 10)) None)"

definition gemini_answer_question ::
  "Settings \<Rightarrow> remote_model \<Rightarrow> string \<Rightarrow> string \<Rightarrow> bool \<Rightarrow> (exn + string) traced" where
  "gemini_answer_question cfg model q ctxt incl =
     generate_text cfg model (get_rag_prompt q ctxt incl) (Some (5 / 10)) None"


section \<open>pdf_processor.py\<close>

text \<open>
  A PDF library is installed, so \<open>PDFProcessor()\<close> and \<open>get_pdf_processor()\<close> do not
  raise. The library is a parameter: it maps the bytes to what \<open>PdfReader\<close> does with them,
  an exception (\<open>Inl\<close>, with its message) or a reader. A reader answers \<open>reader.metadata\<close>
  with an exception, \<open>None\<close> or a dictionary, and \<open>reader.pages\<close> with an exception or the
  pages; each page answers \<open>extract_text()\<close> with an exception or a string.
\<close>

datatype page = ExtractedText string | ExtractRaises string

datatype pages_source = PagesRaise string | Pages "page list"

datatype metadata_source =
    MetadataRaises string
  | MetadataNone
  | MetadataDict "(string \<times> string) list"

record reader =
  metadata_src :: metadata_source
  pages_src :: pages_source

type_synonym bytes = "nat list"

type_synonym pdf_library = "bytes \<Rightarrow> string + reader"

text \<open>
  The metadata dictionary: the seven document fields are always keys, with \<open>None\<close> or a
  string; the three counters are keys only once \<open>extract_text_from_bytes\<close> has set them.
\<close>

record pdf_meta =
  title :: "string option"
  author :: "string option"
  subject :: "string option"
  creator :: "string option"
  producer :: "string option"
  creation_date :: "string option"
  modification_date :: "string option"
  pages_processed :: "nat option"
  total_pages :: "nat option"
  text_length :: "nat option"

definition initial_metadata :: pdf_meta where
  "initial_metadata =
     \<lparr>title = None, author = None, subject = None, creator = None, producer = None,
      creation_date = None, modification_date = None,
      pages_processed = None, total_pages = None, text_length = None\<rparr>"

text \<open>\<open>d.get(key, default)\<close> on the document-information dictionary.\<close>

definition get_default :: "(string \<times> string) list \<Rightarrow> string \<Rightarrow> string \<Rightarrow> string" where
  "get_default d k dflt = (case map_of d k of None \<Rightarrow> dflt | Some v \<Rightarrow> v)"

text \<open>
  \<open>_extract_metadata\<close>: an exception inside \<open>try\<close> is logged and the initial dictionary is
  returned; a falsy \<open>pdf_metadata\<close> (\<open>None\<close> or an empty dictionary) leaves it unchanged
  as well.
\<close>

definition extract_metadata :: "reader \<Rightarrow> pdf_meta" where
  "extract_metadata r =
     (case metadata_src r of
        MetadataRaises msg \<Rightarrow> initial_metadata
      | MetadataNone \<Rightarrow> initial_metadata
      | MetadataDict d \<Rightarrow>
          if d = [] then initial_metadata
          else initial_metadata
                 \<lparr>title := map_of d ''/Title'',
                  author := map_of d ''/Author'',
                  subject := map_of d ''/Subject'',
                  creator := map_of d ''/Creator'',
                  producer := map_of d ''/Producer'',
                  creation_date := Some (get_default d ''/CreationDate'' []),
                  modification_date := Some (get_default d ''/ModDate'' [])\<rparr>)"

text \<open>
  The page loop, \<open>page_num\<close> counting from the second argument: a page whose text is
  non-empty after \<open>strip\<close> adds a block; an exception from the page is logged and the
  loop continues.
\<close>

fun extract_pages :: "page list \<Rightarrow> nat \<Rightarrow> string list" where
  "extract_pages [] page_num = []"
| "extract_pages (ExtractedText t # ps) page_num =
     (if strip t \<noteq> []
      then (''--- Page '' @ str_nat (page_num + 1) @ '' ---\<newline>'' @ strip t)
             # extract_pages ps (page_num + 1)
      else extract_pages ps (page_num + 1))"
| "extract_pages (ExtractRaises e # ps) page_num = extract_pages ps (page_num + 1)"

text \<open>A page contributes a block exactly when its extraction returns text that is not blank.\<close>

definition yields_text :: "page \<Rightarrow> bool" where
  "yields_text p = (case p of ExtractedText t \<Rightarrow> strip t \<noteq> [] | ExtractRaises e \<Rightarrow> False)"

definition no_text_message :: string where
  "no_text_message = ''No text could be extracted from the PDF''"

text \<open>
  \<open>extract_text_from_bytes\<close>: \<open>PDFProcessingError\<close> passes through the outer handler, any
  other exception becomes \<open>PDFProcessingError("Failed to extract text from PDF: ...")\<close>.
\<close>

definition extract_text_from_bytes :: "pdf_library \<Rightarrow> bytes \<Rightarrow> exn + (string \<times> pdf_meta)" where
  "extract_text_from_bytes lib pdf_bytes =
     (case lib pdf_bytes of
        Inl msg \<Rightarrow> Inl (PDFProcessingError (''Failed to extract text from PDF: '' @ msg))
      | Inr r \<Rightarrow>
          let metadata = extract_metadata r in
          case pages_src r of
            PagesRaise msg \<Rightarrow>
              Inl (PDFProcessingError (''Failed to extract text from PDF: '' @ msg))
          | Pages ps \<Rightarrow>
              let num_pages = length ps;
                  text_content = extract_pages ps 0
              in if text_content = [] then Inl (PDFProcessingError no_text_message)
                 else let full_text = join ''\<newline>\<newline>'' text_content
                      in Inr (full_text,
                              metadata\<lparr>pages_processed := Some (length text_content),
                                       total_pages := Some num_pages,
                                       text_length := Some (length full_text)\<rparr>))"

definition validate_pdf :: "pdf_library \<Rightarrow> bytes \<Rightarrow> bool" where
  "validate_pdf lib pdf_bytes =
     (case lib pdf_bytes of
        Inl msg \<Rightarrow> False
      | Inr r \<Rightarrow> (case pages_src r of PagesRaise msg \<Rightarrow> False | Pages ps \<Rightarrow> True))"


section \<open>models.py\<close>

text \<open>
  The request bodies, with the types the schema declares. Field \<open>text\<close> of
  \<open>SummarizeRequest\<close> is \<open>request_text\<close> and field \<open>context\<close> of \<open>QueryRequest\<close> is
  \<open>request_context\<close> here.
\<close>

record SummarizeRequest =
  request_text :: string
  max_length :: "int option"
  style :: "string option"

record QueryRequest =
  question :: string
  request_context :: string
  include_sources :: "bool option"

text \<open>
  The \<open>Field\<close> constraints: \<open>min_length\<close> and \<open>max_length\<close> bound \<open>len\<close> of a string,
  \<open>ge\<close> and \<open>le\<close> bound an integer that is not \<open>None\<close>. Each function lists the fields
  that violate their constraints, in declaration order.
\<close>

definition str_field_errors :: "string \<Rightarrow> nat \<Rightarrow> nat \<Rightarrow> string \<Rightarrow> string list" where
  "str_field_errors name min_len max_len v =
     (if length v < min_len \<or> max_len < length v then [name] else [])"

definition int_field_errors :: "string \<Rightarrow> int \<Rightarrow> int \<Rightarrow> int option \<Rightarrow> string list" where
  "int_field_errors name lo hi v =
     (case v of None \<Rightarrow> [] | Some n \<Rightarrow> if n < lo \<or> hi < n then [name] else [])"

definition validate_SummarizeRequest :: "SummarizeRequest \<Rightarrow> string list" where
  "validate_SummarizeRequest r =
     str_field_errors ''text'' 1 50000 (request_text r)
     @ int_field_errors ''max_length'' 10 1000 (max_length r)"

definition validate_QueryRequest :: "QueryRequest \<Rightarrow> string list" where
  "validate_QueryRequest r =
     str_field_errors ''question'' 1 1000 (question r)
     @ str_field_errors ''context'' 1 50000 (request_context r)"

record SummarizeResponse =
  summary :: string
  original_length :: nat
  summary_length :: nat
  compression_ratio :: rat
  source_type :: string
  pdf_metadata :: "pdf_meta option"

record QueryResponse =
  answer :: string
  confidence :: "rat option"
  sources :: "string list option"
  query_source_type :: string
  query_pdf_metadata :: "pdf_meta option"



section \<open>main.py\<close>

text \<open>
  What a route answers when it does not return its response model: an \<open>HTTPException\<close>
  with status code and detail, or the framework's request validation error (status 422)
  with the offending fields.
\<close>

datatype http_error =
    HTTPException nat string
  | RequestValidationError "string list"

fun status_code :: "http_error \<Rightarrow> nat" where
  "status_code (HTTPException code d) = code"
| "status_code (RequestValidationError fs) = 422"


text \<open>\<open>x or "concise"\<close> on an optional string, and \<open>x or False\<close> on an optional boolean.\<close>

definition or_concise :: "string option \<Rightarrow> string" where
  "or_concise s = (case s of None \<Rightarrow> ''concise'' | Some v \<Rightarrow> if v = [] then ''concise'' else v)"

definition or_False :: "bool option \<Rightarrow> bool" where
  "or_False b = (case b of None \<Rightarrow> False | Some v \<Rightarrow> v)"

text \<open>\<open>summary_length / original_length if original_length > 0 else 0\<close>, as a rational.\<close>

definition ratio :: "nat \<Rightarrow> nat \<Rightarrow> rat" where
  "ratio summ_len orig_len = (if orig_len > 0 then of_nat summ_len / of_nat orig_len else 0)"

text \<open>The handler of \<open>POST /summarize\<close>.\<close>

definition summarize_text ::
  "Settings \<Rightarrow> remote_model \<Rightarrow> SummarizeRequest \<Rightarrow> (http_error + SummarizeResponse) traced" where
  "summarize_text cfg model request =
     (case gemini_summarize_text cfg model (request_text request) (max_length request)
             (or_concise (style request)) of
        (calls, Inl e) \<Rightarrow>
          (calls, Inl (HTTPException 500 (''Summarization failed: '' @ str_exn e)))
      | (calls, Inr summ) \<Rightarrow>
          (calls, Inr \<lparr>summary = summ,
                       original_length = length (request_text request),
                       summary_length = length summ,
                       compression_ratio = ratio (length summ) (length (request_text request)),
                       source_type = ''text'',
                       pdf_metadata = None\<rparr>))"

text \<open>The handler of \<open>POST /query\<close>.\<close>

definition query_document ::
  "Settings \<Rightarrow> remote_model \<Rightarrow> QueryRequest \<Rightarrow> (http_error + QueryResponse) traced" where
  "query_document cfg model request =
     (case gemini_answer_question cfg model (question request) (request_context request)
             (or_False (include_sources request)) of
        (calls, Inl e) \<Rightarrow>
          (calls, Inl (HTTPException 500 (''Query processing failed: '' @ str_exn e)))
      | (calls, Inr ans) \<Rightarrow>
          (calls, Inr \<lparr>answer = ans,
                       confidence = None,
                       sources = (if \<not> or_False (include_sources request) then None else Some []),
                       query_source_type = ''text'',
                       query_pdf_metadata = None\<rparr>))"

text \<open>
  The routes \<open>POST /summarize\<close> and \<open>POST /query\<close>: the framework validates the body
  against the request model and calls the handler only when no field is in error.
\<close>

definition post_summarize ::
  "Settings \<Rightarrow> remote_model \<Rightarrow> SummarizeRequest \<Rightarrow> (http_error + SummarizeResponse) traced" where
  "post_summarize cfg model body =
     (if validate_SummarizeRequest body = [] then summarize_text cfg model body
      else ([], Inl (RequestValidationError (validate_SummarizeRequest body))))"

definition post_query ::
  "Settings \<Rightarrow> remote_model \<Rightarrow> QueryRequest \<Rightarrow> (http_error + QueryResponse) traced" where
  "post_query cfg model body =
     (if validate_QueryRequest body = [] then query_document cfg model body
      else ([], Inl (RequestValidationError (validate_QueryRequest body))))"

text \<open>
  An uploaded file: its name, which the framework leaves \<open>None\<close> when the part has none,
  and its content.
\<close>

record UploadFile =
  filename :: "string option"
  file_content :: bytes

text \<open>
  The handlers of the two PDF routes share the order of their \<open>except\<close> clauses:
  \<open>PDFProcessingError\<close> becomes a 400, an \<open>HTTPException\<close> raised in the body passes
  through, any other exception becomes a 500 with the route's prefix.
\<close>

definition pdf_route_error :: "string \<Rightarrow> exn \<Rightarrow> http_error" where
  "pdf_route_error route_prefix e =
     (case e of
        PDFProcessingError msg \<Rightarrow> HTTPException 400 (''PDF processing failed: '' @ msg)
      | _ \<Rightarrow> HTTPException 500 (route_prefix @ str_exn e))"

definition none_lower_message :: string where
  "none_lower_message = [CHR 0x27] @ ''NoneType'' @ [CHR 0x27] @ '' object has no attribute ''
                        @ [CHR 0x27] @ ''lower'' @ [CHR 0x27]"

text \<open>The handler of \<open>POST /summarize-pdf\<close>.\<close>

definition summarize_pdf ::
  "Settings \<Rightarrow> remote_model \<Rightarrow> pdf_library \<Rightarrow> UploadFile \<Rightarrow> int option \<Rightarrow> string
   \<Rightarrow> (http_error + SummarizeResponse) traced" where
  "summarize_pdf cfg model lib file ml sty =
     (case filename file of
        None \<Rightarrow> ([], Inl (pdf_route_error ''PDF summarization failed: ''
                              (AttributeError none_lower_message)))
      | Some fname \<Rightarrow>
          if \<not> endswith (lower fname) ''.pdf''
          then ([], Inl (HTTPException 400 ''Only PDF files are supported''))
          else if \<not> validate_pdf lib (file_content file)
          then ([], Inl (HTTPException 400 ''Invalid PDF file''))
          else
            case extract_text_from_bytes lib (file_content file) of
              Inl e \<Rightarrow> ([], Inl (pdf_route_error ''PDF summarization failed: '' e))
            | Inr (text_content, meta) \<Rightarrow>
                (case gemini_summarize_text cfg model text_content ml
                        (if sty = [] then ''concise'' else sty) of
                   (calls, Inl e) \<Rightarrow>
                     (calls, Inl (pdf_route_error ''PDF summarization failed: '' e))
                 | (calls, Inr summ) \<Rightarrow>
                     (calls, Inr \<lparr>summary = summ,
                                  original_length = length text_content,
                                  summary_length = length summ,
                                  compression_ratio = ratio (length summ) (length text_content),
                                  source_type = ''pdf'',
                                  pdf_metadata = Some meta\<rparr>)))"

text \<open>The handler of \<open>POST /query-pdf\<close>.\<close>

definition query_pdf ::
  "Settings \<Rightarrow> remote_model \<Rightarrow> pdf_library \<Rightarrow> UploadFile \<Rightarrow> string \<Rightarrow> bool
   \<Rightarrow> (http_error + QueryResponse) traced" where
  "query_pdf cfg model lib file q incl =
     (if strip q = [] then ([], Inl (HTTPException 400 ''Question cannot be empty''))
      else
        case filename file of
          None \<Rightarrow> ([], Inl (pdf_route_error ''PDF query processing failed: ''
                                (AttributeError none_lower_message)))
        | Some fname \<Rightarrow>
            if \<not> endswith (lower fname) ''.pdf''
            then ([], Inl (HTTPException 400 ''Only PDF files are supported''))
            else if \<not> validate_pdf lib (file_content file)
            then ([], Inl (HTTPException 400 ''Invalid PDF file''))
            else
              case extract_text_from_bytes lib (file_content file) of
                Inl e \<Rightarrow> ([], Inl (pdf_route_error ''PDF query processing failed: '' e))
              | Inr (text_content, meta) \<Rightarrow>
                  (case gemini_answer_question cfg model q text_content incl of
                     (calls, Inl e) \<Rightarrow>
                       (calls, Inl (pdf_route_error ''PDF query processing failed: '' e))
                   | (calls, Inr ans) \<Rightarrow>
                       (calls, Inr \<lparr>answer = ans,
                                    confidence = None,
                                    sources = (if \<not> incl then None else Some []),
                                    query_source_type = ''pdf'',
                                    query_pdf_metadata = Some meta\<rparr>)))"


section \<open>Properties of the prompt builder\<close>

lemma style_lookup:
  "map_of SUMMARIZATION_TEMPLATES sty =
     (if sty = ''concise'' then Some concise_template
      else if sty = ''detailed'' then Some detailed_template
      else if sty = ''bullet_points'' then Some bullet_points_template else None)"
  by (simp add: SUMMARIZATION_TEMPLATES_def)

lemma get_summarization_prompt_total:
  "\<exists>p. get_summarization_prompt txt ml sty = Inr p"
  by (simp add: get_summarization_prompt_def style_lookup)

text \<open>
  C6: for every text and every maximum length, a style outside
  \<open>{concise, detailed, bullet_points}\<close> gives exactly the prompt of style \<open>concise\<close>, and
  the call returns a prompt (the dictionary lookup never raises \<open>KeyError\<close>): it is the
  rendering of the concise template.
\<close>

theorem unknown_style_renders_as_concise:
  "sty \<notin> {''concise'', ''detailed'', ''bullet_points''} \<Longrightarrow>
     get_summarization_prompt txt ml sty = get_summarization_prompt txt ml ''concise'' \<and>
     get_summarization_prompt txt ml sty =
       Inr (render concise_template [(''text'', JStr txt), (''max_length'', max_length_value ml)])"
  by (simp add: get_summarization_prompt_def style_lookup)

theorem unknown_style_renders_as_concise_witness:
  "''invalid_style'' \<notin> {''concise'', ''detailed'', ''bullet_points''} \<and>
   get_summarization_prompt ''This is a test document.'' (Some 50) ''invalid_style'' =
     get_summarization_prompt ''This is a test document.'' (Some 50) ''concise'' \<and>
   get_summarization_prompt ''This is a test document.'' (Some 50) ''invalid_style'' =
     Inr (render concise_template
            [(''text'', JStr ''This is a test document.''), (''max_length'', max_length_value (Some 50))])"
proof -
  have h: "''invalid_style'' \<notin> {''concise'', ''detailed'', ''bullet_points''}" by simp
  show ?thesis by (rule conjI [OF h unknown_style_renders_as_concise [OF h]])
qed


section \<open>Properties of the text extractor\<close>

lemma length_extract_pages:
  "length (extract_pages ps n) = length (filter yields_text ps)"
  by (induction ps n rule: extract_pages.induct) (simp_all add: yields_text_def)

lemma extract_pages_empty_iff:
  "extract_pages ps n = [] \<longleftrightarrow> (\<forall>p \<in> set ps. \<not> yields_text p)"
  by (induction ps n rule: extract_pages.induct) (simp_all add: yields_text_def)

text \<open>
  C9: when reading the document information raises, \<open>extract_text_from_bytes\<close> returns
  what it returns for the same document with any other outcome \<open>m'\<close> of the metadata
  read, success included, with the same text and counters and with the seven
  document fields absent.
\<close>

theorem metadata_failure_is_swallowed:
  assumes "lib pdf_bytes = Inr r" and "metadata_src r = MetadataRaises msg"
    and "extract_text_from_bytes (\<lambda>b. Inr (r\<lparr>metadata_src := m'\<rparr>)) pdf_bytes = Inr (txt, md')"
  shows "extract_text_from_bytes lib pdf_bytes =
           Inr (txt, md'\<lparr>title := None, author := None, subject := None, creator := None,
                        producer := None, creation_date := None, modification_date := None\<rparr>)"
  using assms
  by (auto simp: extract_text_from_bytes_def extract_metadata_def initial_metadata_def Let_def
           split: pages_source.splits metadata_source.splits if_splits)

theorem metadata_failure_is_swallowed_witness:
  "extract_text_from_bytes
     (\<lambda>b. Inr \<lparr>metadata_src = MetadataRaises ''broken info'',
                pages_src = Pages [ExtractedText ''Alpha'']\<rparr>) []
   = Inr (''--- Page 1 ---\<newline>Alpha'',
          \<lparr>title = None, author = None, subject = None, creator = None,
           producer = None, creation_date = None, modification_date = None,
           pages_processed = Some 1, total_pages = Some 1, text_length = Some 20\<rparr>)"
proof -
  let ?r = "\<lparr>metadata_src = MetadataRaises ''broken info'',
             pages_src = Pages [ExtractedText ''Alpha'']\<rparr>"
  have opened: "(\<lambda>b. Inr ?r) ([] :: bytes) = Inr ?r"
    by simp
  have raises: "metadata_src ?r = MetadataRaises ''broken info''"
    by simp
  have other: "extract_text_from_bytes
       (\<lambda>b. Inr (?r\<lparr>metadata_src := MetadataDict [(''/Title'', ''Test Document'')]\<rparr>)) []
     = Inr (''--- Page 1 ---\<newline>Alpha'',
            \<lparr>title = Some ''Test Document'', author = None, subject = None, creator = None,
             producer = None, creation_date = Some [], modification_date = Some [],
             pages_processed = Some 1, total_pages = Some 1, text_length = Some 20\<rparr>)"
    by (simp add: extract_text_from_bytes_def extract_metadata_def initial_metadata_def
          get_default_def strip_def isspace_def str_nat.simps digit_char_def)
  from metadata_failure_is_swallowed [OF opened raises other] show ?thesis
    by simp
qed

text \<open>
  C1, as stated, fails: a page whose extracted text is a single space yields non-empty
  text, and extraction still fails with the no-text error.
\<close>

theorem blank_page_counterexample:
  "'' '' \<noteq> [] \<and>
   extract_text_from_bytes
     (\<lambda>b. Inr \<lparr>metadata_src = MetadataNone, pages_src = Pages [ExtractedText '' '']\<rparr>) []
   = Inl (PDFProcessingError ''No text could be extracted from the PDF'')"
  by (simp add: extract_text_from_bytes_def no_text_message_def strip_def isspace_def)

text \<open>
  C1, amended: for every buffer that opens as a document whose pages can be listed, if no
  page yields text that is non-empty after stripping whitespace, extraction fails with
  the no-text error; otherwise it succeeds, \<open>pages_processed\<close> is the number of pages that
  yield such text and \<open>total_pages\<close> is the number of pages. A page whose extraction
  raises yields no text and is skipped.
\<close>

theorem extraction_counts_pages_with_text:
  assumes "lib pdf_bytes = Inr r" and "pages_src r = Pages ps"
  shows "if \<forall>p \<in> set ps. \<not> yields_text p
         then extract_text_from_bytes lib pdf_bytes = Inl (PDFProcessingError no_text_message)
         else \<exists>txt md. extract_text_from_bytes lib pdf_bytes = Inr (txt, md) \<and>
                pages_processed md = Some (length (filter yields_text ps)) \<and>
                total_pages md = Some (length ps)"
  using assms
  by (simp add: extract_text_from_bytes_def Let_def extract_pages_empty_iff length_extract_pages)

theorem extraction_counts_pages_with_text_witness:
  "(\<exists>txt md.
      extract_text_from_bytes
        (\<lambda>b. Inr \<lparr>metadata_src = MetadataNone,
                   pages_src = Pages [ExtractedText ''Alpha'', ExtractRaises ''unreadable'',
                                      ExtractedText '' Gamma '']\<rparr>) [] = Inr (txt, md) \<and>
      pages_processed md = Some 2 \<and> total_pages md = Some 3) \<and>
   extract_text_from_bytes
     (\<lambda>b. Inr \<lparr>metadata_src = MetadataNone,
                pages_src = Pages [ExtractedText [], ExtractRaises ''unreadable'']\<rparr>) []
   = Inl (PDFProcessingError no_text_message)"
proof -
  let ?ps = "[ExtractedText ''Alpha'', ExtractRaises ''unreadable'', ExtractedText '' Gamma '']"
  let ?r = "\<lparr>metadata_src = MetadataNone, pages_src = Pages ?ps\<rparr>"
  let ?qs = "[ExtractedText [], ExtractRaises ''unreadable'']"
  let ?s = "\<lparr>metadata_src = MetadataNone, pages_src = Pages ?qs\<rparr>"
  have some: "\<not> (\<forall>p \<in> set ?ps. \<not> yields_text p)"
    by (simp add: yields_text_def strip_def isspace_def)
  have count: "length (filter yields_text ?ps) = 2" "length ?ps = 3"
    by (simp_all add: yields_text_def strip_def isspace_def)
  have none: "\<forall>p \<in> set ?qs. \<not> yields_text p"
    by (simp add: yields_text_def strip_def isspace_def)
  have "pages_src ?r = Pages ?ps"
    by simp
  from extraction_counts_pages_with_text [of "\<lambda>b. Inr ?r" "[]" ?r ?ps, OF refl this]
  have first: "\<exists>txt md. extract_text_from_bytes (\<lambda>b. Inr ?r) [] = Inr (txt, md) \<and>
                 pages_processed md = Some 2 \<and> total_pages md = Some 3"
    unfolding if_not_P [OF some] count .
  have "pages_src ?s = Pages ?qs"
    by simp
  from extraction_counts_pages_with_text [of "\<lambda>b. Inr ?s" "[]" ?s ?qs, OF refl this]
  have second: "extract_text_from_bytes (\<lambda>b. Inr ?s) [] = Inl (PDFProcessingError no_text_message)"
    unfolding if_P [OF none] .
  from first second show ?thesis by (rule conjI)
qed


section \<open>Properties of the model gateway\<close>

lemma generate_text_fst:
  "fst (generate_text cfg model p t m) =
     [\<lparr>prompt = p,
       gen_temperature = (case t of Some x \<Rightarrow> x | None \<Rightarrow> temperature cfg),
       max_output_tokens = (case m of Some x \<Rightarrow> x | None \<Rightarrow> max_tokens cfg),
       candidate_count = 1\<rparr>]"
  by (simp add: generate_text_def Let_def)

lemma generate_text_snd:
  "snd (generate_text cfg model p t m) =
     (case model \<lparr>prompt = p,
                  gen_temperature = (case t of Some x \<Rightarrow> x | None \<Rightarrow> temperature cfg),
                  max_output_tokens = (case m of Some x \<Rightarrow> x | None \<Rightarrow> max_tokens cfg),
                  candidate_count = 1\<rparr> of
        Raises msg \<Rightarrow> Inl (PyException (''Failed to generate text: '' @ msg))
      | Completion c \<Rightarrow>
          if c = [] then Inl (PyException ''Failed to generate text: Empty response from Gemini API'')
          else Inr (strip c))"
  by (simp add: generate_text_def Let_def split: remote_response.splits)



text \<open>Stripping is idempotent, so a returned completion has no outer whitespace.\<close>

lemma strip_strip: "strip (strip s) = strip s"
proof -
  define t where "t = dropWhile isspace s"
  define d where "d = dropWhile isspace (rev t)"
  have t: "t = [] \<or> \<not> isspace (hd t)"
    unfolding t_def by (metis hd_dropWhile)
  have "rev t = takeWhile isspace (rev t) @ d"
    unfolding d_def by simp
  then have split: "t = rev d @ rev (takeWhile isspace (rev t))"
    by (metis rev_append rev_rev_ident)
  have "dropWhile isspace (rev d) = rev d"
  proof (cases "rev d = []")
    case True
    then show ?thesis by simp
  next
    case False
    with split have "hd (rev d) = hd t" and "t \<noteq> []"
      by (metis hd_append2, metis append_is_Nil_conv)
    with t False show ?thesis
      by (simp add: dropWhile_eq_self_iff)
  qed
  moreover have "dropWhile isspace d = d"
    unfolding d_def by simp
  ultimately show ?thesis
    unfolding strip_def t_def [symmetric] d_def [symmetric] by simp
qed

lemma generate_text_success_stripped:
  assumes "snd (generate_text cfg model p t m) = Inr s"
  shows "strip s = s"
  using assms
  by (auto simp: generate_text_snd strip_strip split: remote_response.splits if_splits)

text \<open>
  C3: a completion that consists of one space is not empty, so it passes the
  empty-response check; \<open>generate_text\<close> then returns it stripped, which is the empty
  string.
\<close>

theorem generate_text_blank_completion:
  "snd (generate_text cfg (\<lambda>req. Completion '' '') p t m) = Inr []"
  by (simp add: generate_text_snd strip_def isspace_def)


section \<open>Properties of the request pipeline\<close>

lemma gemini_summarize_text_fst:
  "\<exists>p. get_summarization_prompt txt ml sty = Inr p \<and>
       gemini_summarize_text cfg model txt ml sty = generate_text cfg model p (Some (3 / 10)) None"
proof -
  obtain p where p: "get_summarization_prompt txt ml sty = Inr p"
    using get_summarization_prompt_total by blast
  then show ?thesis by (simp add: gemini_summarize_text_def)
qed

lemma summarize_text_fst:
  "fst (summarize_text cfg model request) =
     fst (gemini_summarize_text cfg model (request_text request) (max_length request)
            (or_concise (style request)))"
  by (simp add: summarize_text_def split: prod.splits sum.splits)



lemma query_document_snd:
  "snd (query_document cfg model request) =
     (case snd (gemini_answer_question cfg model (question request) (request_context request)
                  (or_False (include_sources request))) of
        Inl e \<Rightarrow> Inl (HTTPException 500 (''Query processing failed: '' @ str_exn e))
      | Inr ans \<Rightarrow>
          Inr \<lparr>answer = ans, confidence = None,
               sources = (if \<not> or_False (include_sources request) then None else Some []),
               query_source_type = ''text'', query_pdf_metadata = None\<rparr>)"
  by (simp add: query_document_def split: prod.splits sum.splits)







lemma gemini_answer_question_completion:
  assumes "\<And>req. model req = Completion c" and "c \<noteq> []"
  shows "snd (gemini_answer_question cfg model q ctxt incl) = Inr (strip c)"
  using assms by (simp add: gemini_answer_question_def generate_text_snd)


lemma query_pdf_snd:
  assumes "strip q \<noteq> []"
    and "filename file = Some fname" and "endswith (lower fname) ''.pdf''"
    and "validate_pdf lib (file_content file)"
    and "extract_text_from_bytes lib (file_content file) = Inr (txt, md)"
  shows "snd (query_pdf cfg model lib file q incl) =
           (case snd (gemini_answer_question cfg model q txt incl) of
              Inl e \<Rightarrow> Inl (pdf_route_error ''PDF query processing failed: '' e)
            | Inr ans \<Rightarrow>
                Inr \<lparr>answer = ans, confidence = None,
                     sources = (if \<not> incl then None else Some []),
                     query_source_type = ''pdf'', query_pdf_metadata = Some md\<rparr>)"
  using assms by (simp add: query_pdf_def split: prod.splits sum.splits)

lemma report_pdf_suffix: "endswith (lower ''REPORT.PDF'') ''.pdf''"
  by code_simp

lemma one_page_document:
  "extract_text_from_bytes
     (\<lambda>b. Inr \<lparr>metadata_src = MetadataNone, pages_src = Pages [ExtractedText ''Alpha beta'']\<rparr>) []
   = Inr (''--- Page 1 ---\<newline>Alpha beta'',
          \<lparr>title = None, author = None, subject = None, creator = None,
           producer = None, creation_date = None, modification_date = None,
           pages_processed = Some 1, total_pages = Some 1, text_length = Some 25\<rparr>)"
  by (simp add: extract_text_from_bytes_def extract_metadata_def initial_metadata_def
        strip_def isspace_def str_nat.simps digit_char_def)





lemma query_document_sources:
  "snd (query_document cfg model request) = Inr resp \<Longrightarrow>
   sources resp = (if include_sources request = Some True then Some [] else None)"
  by (auto simp: query_document_def or_False_def split: prod.splits sum.splits option.splits)

lemma query_pdf_sources:
  "snd (query_pdf cfg model lib file q incl) = Inr resp \<Longrightarrow>
   sources resp = (if incl then Some [] else None)"
  by (auto simp: query_pdf_def split: prod.splits sum.splits option.splits if_splits)

text \<open>
  C7: whenever the handler of \<open>POST /query\<close> or of \<open>POST /query-pdf\<close> returns a
  response, its \<open>sources\<close> field is the empty list when \<open>include_sources\<close> is true and
  absent otherwise; it never holds a citation.
\<close>

theorem sources_never_populated:
  "(snd (query_document cfg model request) = Inr resp \<longrightarrow>
      sources resp = (if include_sources request = Some True then Some [] else None)) \<and>
   (snd (query_pdf cfg model lib file q incl) = Inr presp \<longrightarrow>
      sources presp = (if incl then Some [] else None))"
proof (intro conjI impI)
  assume "snd (query_document cfg model request) = Inr resp"
  then show "sources resp = (if include_sources request = Some True then Some [] else None)"
    by (rule query_document_sources)
next
  assume "snd (query_pdf cfg model lib file q incl) = Inr presp"
  then show "sources presp = (if incl then Some [] else None)"
    by (rule query_pdf_sources)
qed

theorem sources_never_populated_witness:
  "snd (query_document \<lparr>debug = True, max_tokens = 2048, temperature = 7 / 10\<rparr>
          (\<lambda>req. Completion ''X is a letter.'')
          \<lparr>question = ''What is X?'', request_context = ''X is a letter.'',
           include_sources = Some True\<rparr>)
   = Inr \<lparr>answer = ''X is a letter.'', confidence = None, sources = Some [],
          query_source_type = ''text'', query_pdf_metadata = None\<rparr> \<and>
   sources \<lparr>answer = ''X is a letter.'', confidence = None, sources = Some [],
            query_source_type = ''text'', query_pdf_metadata = None\<rparr> = Some [] \<and>
   (\<exists>presp.
      snd (query_pdf \<lparr>debug = True, max_tokens = 2048, temperature = 7 / 10\<rparr>
             (\<lambda>req. Completion ''X is a letter.'')
             (\<lambda>b. Inr \<lparr>metadata_src = MetadataNone,
                        pages_src = Pages [ExtractedText ''Alpha beta'']\<rparr>)
             \<lparr>filename = Some ''REPORT.PDF'', file_content = []\<rparr> ''What is X?'' False)
      = Inr presp \<and> sources presp = None)"
proof -
  let ?cfg = "\<lparr>debug = True, max_tokens = 2048, temperature = 7 / 10\<rparr>"
  let ?model = "\<lambda>req :: generation_request. Completion ''X is a letter.''"
  let ?request = "\<lparr>question = ''What is X?'', request_context = ''X is a letter.'',
                   include_sources = Some True\<rparr>"
  let ?resp = "\<lparr>answer = ''X is a letter.'', confidence = None, sources = Some [],
                query_source_type = ''text'', query_pdf_metadata = None\<rparr>"
  let ?lib = "\<lambda>b :: bytes. Inr \<lparr>metadata_src = MetadataNone,
                     pages_src = Pages [ExtractedText ''Alpha beta'']\<rparr> :: string + reader"
  let ?file = "\<lparr>filename = Some ''REPORT.PDF'', file_content = []\<rparr>"
  let ?md = "\<lparr>title = None, author = None, subject = None, creator = None,
             producer = None, creation_date = None, modification_date = None,
             pages_processed = Some 1, total_pages = Some 1, text_length = Some 25\<rparr>"
  let ?presp = "\<lparr>answer = ''X is a letter.'', confidence = None, sources = None,
                 query_source_type = ''pdf'', query_pdf_metadata = Some ?md\<rparr>"
  have stripped: "strip ''X is a letter.'' = ''X is a letter.''"
    by (simp add: strip_def isspace_def)
  have asked: "strip ''What is X?'' \<noteq> []"
    by (simp add: strip_def isspace_def)
  have run: "snd (query_document ?cfg ?model ?request) = Inr ?resp"
    by (simp add: query_document_snd gemini_answer_question_completion stripped or_False_def)
  have named: "filename ?file = Some ''REPORT.PDF''"
    by simp
  have valid: "validate_pdf ?lib (file_content ?file)"
    by (simp add: validate_pdf_def)
  have extracted: "extract_text_from_bytes ?lib (file_content ?file)
                 = Inr (''--- Page 1 ---\<newline>Alpha beta'', ?md)"
    using one_page_document by simp
  have prun: "snd (query_pdf ?cfg ?model ?lib ?file ''What is X?'' False) = Inr ?presp"
    by (simp add: query_pdf_snd [OF asked named report_pdf_suffix valid extracted]
          gemini_answer_question_completion stripped)
  note t = sources_never_populated [of ?cfg ?model ?request ?resp ?lib ?file "''What is X?''" False ?presp]
  from t [THEN conjunct1, THEN mp, OF run]
  have first: "sources ?resp = Some []"
    by simp
  from t [THEN conjunct2, THEN mp, OF prun]
  have "sources ?presp = None"
    by simp
  with prun have second: "\<exists>presp. snd (query_pdf ?cfg ?model ?lib ?file ''What is X?'' False)
                            = Inr presp \<and> sources presp = None"
    by (intro exI conjI)
  from run first second show ?thesis by (intro conjI)
qed

text \<open>
  C4, as stated, fails: a text of one space is empty after trimming, yet it passes the
  validation of \<open>POST /summarize\<close> and one request is sent to the model.
\<close>

theorem blank_text_passes_validation:
  "strip '' '' = [] \<and>
   validate_SummarizeRequest \<lparr>request_text = '' '', max_length = None, style = None\<rparr> = [] \<and>
   length (fst (post_summarize \<lparr>debug = True, max_tokens = 2048, temperature = 7 / 10\<rparr>
                  (\<lambda>req. Completion ''ok'')
                  \<lparr>request_text = '' '', max_length = None, style = None\<rparr>)) = 1"
proof -
  let ?cfg = "\<lparr>debug = True, max_tokens = 2048, temperature = 7 / 10\<rparr>"
  let ?model = "\<lambda>req :: generation_request. Completion ''ok''"
  let ?body = "\<lparr>request_text = '' '', max_length = None, style = None\<rparr>"
  have blank: "strip '' '' = []"
    by (simp add: strip_def isspace_def)
  have valid: "validate_SummarizeRequest ?body = []"
    by (simp add: validate_SummarizeRequest_def str_field_errors_def int_field_errors_def)
  obtain p where "gemini_summarize_text ?cfg ?model (request_text ?body) (max_length ?body)
                    (or_concise (style ?body))
                  = generate_text ?cfg ?model p (Some (3 / 10)) None"
    using gemini_summarize_text_fst by blast
  then have "length (fst (summarize_text ?cfg ?model ?body)) = 1"
    by (simp only: summarize_text_fst generate_text_fst) simp
  then have sent: "length (fst (post_summarize ?cfg ?model ?body)) = 1"
    by (simp add: post_summarize_def valid)
  from blank valid sent show ?thesis by (intro conjI)
qed

text \<open>
  C4, amended: \<open>POST /summarize\<close> and \<open>POST /query\<close> validate the body before the handler
  runs. \<open>text\<close> and \<open>context\<close> must have between 1 and 50,000 characters and \<open>question\<close>
  between 1 and 1,000, counted without trimming; \<open>max_length\<close>, when provided, must lie
  in [10, 1000]. When all constraints hold the handler runs; otherwise the answer is a
  validation error (status 422) that lists exactly the offending fields, and no request
  is sent to the model.
\<close>

theorem request_validation:
  "post_summarize cfg model body =
     (if 1 \<le> length (request_text body) \<and> length (request_text body) \<le> 50000 \<and>
         (case max_length body of None \<Rightarrow> True | Some n \<Rightarrow> 10 \<le> n \<and> n \<le> 1000)
      then summarize_text cfg model body
      else ([], Inl (RequestValidationError
                 ((if 1 \<le> length (request_text body) \<and> length (request_text body) \<le> 50000
                   then [] else [''text''])
                  @ (case max_length body of
                       None \<Rightarrow> []
                     | Some n \<Rightarrow> if 10 \<le> n \<and> n \<le> 1000 then [] else [''max_length'']))))) \<and>
   post_query cfg model qbody =
     (if 1 \<le> length (question qbody) \<and> length (question qbody) \<le> 1000 \<and>
         1 \<le> length (request_context qbody) \<and> length (request_context qbody) \<le> 50000
      then query_document cfg model qbody
      else ([], Inl (RequestValidationError
                 ((if 1 \<le> length (question qbody) \<and> length (question qbody) \<le> 1000
                   then [] else [''question''])
                  @ (if 1 \<le> length (request_context qbody) \<and>
                        length (request_context qbody) \<le> 50000
                     then [] else [''context''])))))"
proof (rule conjI)
  show "post_summarize cfg model body =
     (if 1 \<le> length (request_text body) \<and> length (request_text body) \<le> 50000 \<and>
         (case max_length body of None \<Rightarrow> True | Some n \<Rightarrow> 10 \<le> n \<and> n \<le> 1000)
      then summarize_text cfg model body
      else ([], Inl (RequestValidationError
                 ((if 1 \<le> length (request_text body) \<and> length (request_text body) \<le> 50000
                   then [] else [''text''])
                  @ (case max_length body of
                       None \<Rightarrow> []
                     | Some n \<Rightarrow> if 10 \<le> n \<and> n \<le> 1000 then [] else [''max_length''])))))"
    by (cases "max_length body")
       (simp_all add: post_summarize_def validate_SummarizeRequest_def str_field_errors_def
          int_field_errors_def not_less not_le)
next
  show "post_query cfg model qbody =
     (if 1 \<le> length (question qbody) \<and> length (question qbody) \<le> 1000 \<and>
         1 \<le> length (request_context qbody) \<and> length (request_context qbody) \<le> 50000
      then query_document cfg model qbody
      else ([], Inl (RequestValidationError
                 ((if 1 \<le> length (question qbody) \<and> length (question qbody) \<le> 1000
                   then [] else [''question''])
                  @ (if 1 \<le> length (request_context qbody) \<and>
                        length (request_context qbody) \<le> 50000
                     then [] else [''context''])))))"
    by (simp add: post_query_def validate_QueryRequest_def str_field_errors_def not_less not_le)
qed

theorem request_validation_witness:
  "post_summarize \<lparr>debug = True, max_tokens = 2048, temperature = 7 / 10\<rparr>
     (\<lambda>req. Completion ''ok'') \<lparr>request_text = [], max_length = Some 5, style = None\<rparr>
   = ([], Inl (RequestValidationError [''text'', ''max_length''])) \<and>
   post_query \<lparr>debug = True, max_tokens = 2048, temperature = 7 / 10\<rparr>
     (\<lambda>req. Completion ''ok'')
     \<lparr>question = replicate 1001 CHR ''a'', request_context = ''Some context'',
      include_sources = None\<rparr>
   = ([], Inl (RequestValidationError [''question'']))"
  using request_validation
          [of "\<lparr>debug = True, max_tokens = 2048, temperature = 7 / 10\<rparr>"
              "\<lambda>req. Completion ''ok''"
              "\<lparr>request_text = [], max_length = Some 5, style = None\<rparr>"
              "\<lparr>question = replicate 1001 CHR ''a'', request_context = ''Some context'',
                include_sources = None\<rparr>"]
  by simp


section \<open>The length-constraint line of the summarization prompt\<close>

lemma prefix_sep: "prefix w (c # ys) \<Longrightarrow> c \<notin> set w \<Longrightarrow> w = []"
  by (cases w) auto

text \<open>A word that does not contain the separator cannot straddle it.\<close>

lemma sublist_append_sep:
  assumes "c \<notin> set w"
  shows "sublist w (xs @ c # ys) \<longleftrightarrow> sublist w xs \<or> sublist w ys"
proof
  assume "sublist w (xs @ c # ys)"
  then consider "sublist w xs" | "sublist w (c # ys)"
    | w1 w2 where "w = w1 @ w2" "suffix w1 xs" "prefix w2 (c # ys)"
    by (auto simp: sublist_append)
  then show "sublist w xs \<or> sublist w ys"
  proof cases
    case 1
    then show ?thesis by simp
  next
    case 2
    then have "prefix w (c # ys) \<or> sublist w ys" by (simp add: sublist_Cons_right)
    with assms show ?thesis by (auto dest: prefix_sep)
  next
    case 3
    from 3(1) assms have "c \<notin> set w2" by simp
    with 3(3) have "w2 = []" by (rule prefix_sep)
    with 3(1,2) show ?thesis by auto
  qed
next
  assume "sublist w xs \<or> sublist w ys"
  then show "sublist w (xs @ c # ys)"
    by (auto simp: sublist_append sublist_Cons_right)
qed

text \<open>
  The three summarization templates have one shape: instructions, the conditional
  block, a header that ends with a newline, the text, and a closing that starts with a
  newline. When the condition is false the block leaves no trace.
\<close>

lemma render_skips_block:
  assumes "\<not> truthy (Some v)"
    and "m \<noteq> []" and "t \<noteq> []" and "last m = c" and "hd t = c" and "c \<notin> set w"
    and "\<not> sublist w (h @ butlast m)" and "\<not> sublist w (tl t)" and "\<not> sublist w txt"
  shows "\<not> sublist w (render [Data h, IfNode ''max_length'' a [], Data m, Var ''text'', Data t]
                         [(''text'', JStr txt), (''max_length'', v)])"
proof -
  from assms have m: "m = butlast m @ [c]"
    by (auto simp: snoc_eq_iff_butlast)
  from assms have t: "t = c # tl t"
    by (cases t) auto
  have "render [Data h, IfNode ''max_length'' a [], Data m, Var ''text'', Data t]
          [(''text'', JStr txt), (''max_length'', v)] = h @ m @ txt @ t"
    using assms(1) by (simp add: render_def)
  also have "\<dots> = (h @ butlast m) @ c # (txt @ c # tl t)"
    using m t by (metis append.assoc append_Cons append_Nil)
  finally show ?thesis
    using assms by (simp only: sublist_append_sep [OF \<open>c \<notin> set w\<close>]) simp
qed

lemma render_keeps_block:
  assumes "truthy (Some (JInt n))" and "a2 \<noteq> []"
  shows "sublist (a1 @ str_int n @ butlast a2)
           (render [Data h, IfNode ''max_length'' [Data (c # a1), Var ''max_length'', Data a2] [],
                    Data m, Var ''text'', Data t]
                   [(''text'', JStr txt), (''max_length'', JInt n)])"
proof -
  from assms(2) have a2: "a2 = butlast a2 @ [last a2]" by simp
  have "render [Data h, IfNode ''max_length'' [Data (c # a1), Var ''max_length'', Data a2] [],
                    Data m, Var ''text'', Data t]
                   [(''text'', JStr txt), (''max_length'', JInt n)]
        = h @ c # a1 @ str_int n @ a2 @ m @ txt @ t"
    using assms(1) by (simp add: render_def)
  also have "\<dots> = (h @ [c]) @ (a1 @ str_int n @ butlast a2) @ (last a2 # m @ txt @ t)"
    by (subst a2) simp
  finally show ?thesis by (simp only: sublist_appendI)
qed

lemma no_line_concise:
  assumes "\<not> truthy (Some v)" and "\<not> sublist ''approximately'' txt"
  shows "\<not> sublist ''approximately''
           (render concise_template [(''text'', JStr txt), (''max_length'', v)])"
  unfolding concise_template_def
  by (rule render_skips_block [where c = "CHR 0x0A"])
     (use assms in \<open>simp_all add: sublist_code\<close>)

lemma no_line_detailed:
  assumes "\<not> truthy (Some v)" and "\<not> sublist ''approximately'' txt"
  shows "\<not> sublist ''approximately''
           (render detailed_template [(''text'', JStr txt), (''max_length'', v)])"
  unfolding detailed_template_def
  by (rule render_skips_block [where c = "CHR 0x0A"])
     (use assms in \<open>simp_all add: sublist_code\<close>)

lemma no_line_bullet_points:
  assumes "\<not> truthy (Some v)" and "\<not> sublist ''approximately'' txt"
  shows "\<not> sublist ''approximately''
           (render bullet_points_template [(''text'', JStr txt), (''max_length'', v)])"
  unfolding bullet_points_template_def
  by (rule render_skips_block [where c = "CHR 0x0A"])
     (use assms in \<open>simp_all add: sublist_code bullet_glyph_def\<close>)

lemma line_concise:
  assumes "n \<noteq> 0"
  shows "sublist (''- Keep the summary to approximately '' @ str_int n @ '' words or less'')
           (render concise_template [(''text'', JStr txt), (''max_length'', JInt n)])"
proof -
  have "sublist (''- Keep the summary to approximately '' @ str_int n
                   @ butlast '' words or less\<newline>'')
          (render concise_template [(''text'', JStr txt), (''max_length'', JInt n)])"
    unfolding concise_template_def by (rule render_keeps_block) (use assms in simp_all)
  then show ?thesis by simp
qed

lemma line_detailed:
  assumes "n \<noteq> 0"
  shows "sublist (''- Keep the summary to approximately '' @ str_int n @ '' words or less'')
           (render detailed_template [(''text'', JStr txt), (''max_length'', JInt n)])"
proof -
  have "sublist (''- Keep the summary to approximately '' @ str_int n
                   @ butlast '' words or less\<newline>'')
          (render detailed_template [(''text'', JStr txt), (''max_length'', JInt n)])"
    unfolding detailed_template_def by (rule render_keeps_block) (use assms in simp_all)
  then show ?thesis by simp
qed

lemma line_bullet_points:
  assumes "n \<noteq> 0"
  shows "sublist (''- Limit to approximately '' @ str_int n
                    @ '' words total across all bullet points'')
           (render bullet_points_template [(''text'', JStr txt), (''max_length'', JInt n)])"
proof -
  have "sublist (''- Limit to approximately '' @ str_int n
                   @ butlast '' words total across all bullet points\<newline>'')
          (render bullet_points_template [(''text'', JStr txt), (''max_length'', JInt n)])"
    unfolding bullet_points_template_def by (rule render_keeps_block) (use assms in simp_all)
  then show ?thesis by simp
qed

lemma get_summarization_prompt_cases:
  "get_summarization_prompt txt ml sty =
     Inr (render (if sty = ''detailed'' then detailed_template
                  else if sty = ''bullet_points'' then bullet_points_template
                  else concise_template)
            [(''text'', JStr txt), (''max_length'', max_length_value ml)])"
  by (simp add: get_summarization_prompt_def style_lookup)

text \<open>
  C5, as stated, fails: \<open>{% if max_length %}\<close> is false for the integer 0, so with
  \<open>max_length = 0\<close> the rendered prompt has no length line and does not contain \<open>0\<close>.
\<close>

theorem zero_max_length_counterexample:
  "str_int 0 = ''0'' \<and>
   get_summarization_prompt ''abc'' (Some 0) ''concise'' =
     Inr (render concise_template [(''text'', JStr ''abc''), (''max_length'', JInt 0)]) \<and>
   \<not> sublist ''0'' (render concise_template [(''text'', JStr ''abc''), (''max_length'', JInt 0)])"
proof (intro conjI)
  show "str_int 0 = ''0''"
    by (simp add: str_int_def str_nat.simps digit_char_def)
  show "get_summarization_prompt ''abc'' (Some 0) ''concise'' =
     Inr (render concise_template [(''text'', JStr ''abc''), (''max_length'', JInt 0)])"
    by (simp add: get_summarization_prompt_cases max_length_value_def)
  show "\<not> sublist ''0'' (render concise_template [(''text'', JStr ''abc''), (''max_length'', JInt 0)])"
    by (simp add: render_def concise_template_def sublist_code)
qed

text \<open>
  C5, amended: every length-constraint line of the templates contains the word
  \<open>approximately\<close>, and nothing else in them does. For every text and style, when
  \<open>max_length\<close> is \<open>None\<close> or 0 the rendered prompt contains that word only if the text
  itself does, so it has no length-constraint line; for every other integer \<open>n\<close> the
  prompt contains the line of its style with the decimal digits of \<open>n\<close>:
  \<open>- Limit to approximately n words total across all bullet points\<close> for style
  \<open>bullet_points\<close> and \<open>- Keep the summary to approximately n words or less\<close> for every
  other style.
\<close>

theorem length_line_follows_max_length:
  "((ml = None \<or> ml = Some 0) \<and> \<not> sublist ''approximately'' txt \<longrightarrow>
      (\<exists>p. get_summarization_prompt txt ml sty = Inr p \<and> \<not> sublist ''approximately'' p)) \<and>
   (ml = Some n \<and> n \<noteq> 0 \<longrightarrow>
      (\<exists>p. get_summarization_prompt txt ml sty = Inr p \<and>
           sublist (if sty = ''bullet_points''
                    then ''- Limit to approximately '' @ str_int n
                           @ '' words total across all bullet points''
                    else ''- Keep the summary to approximately '' @ str_int n
                           @ '' words or less'') p))"
proof (intro conjI impI)
  assume a: "(ml = None \<or> ml = Some 0) \<and> \<not> sublist ''approximately'' txt"
  then have falsy: "\<not> truthy (Some (max_length_value ml))"
    by (auto simp: max_length_value_def)
  from a have clean: "\<not> sublist ''approximately'' txt"
    by (rule conjunct2)
  have "\<not> sublist ''approximately''
          (render (if sty = ''detailed'' then detailed_template
                   else if sty = ''bullet_points'' then bullet_points_template
                   else concise_template)
             [(''text'', JStr txt), (''max_length'', max_length_value ml)])"
    using no_line_concise [OF falsy clean] no_line_detailed [OF falsy clean]
      no_line_bullet_points [OF falsy clean]
    by (cases "sty = ''detailed''"; cases "sty = ''bullet_points''") simp_all
  then show "\<exists>p. get_summarization_prompt txt ml sty = Inr p \<and> \<not> sublist ''approximately'' p"
    by (simp only: get_summarization_prompt_cases) simp
next
  assume b: "ml = Some n \<and> n \<noteq> 0"
  then have ml: "max_length_value ml = JInt n" and n: "n \<noteq> 0"
    by (simp_all add: max_length_value_def)
  show "\<exists>p. get_summarization_prompt txt ml sty = Inr p \<and>
           sublist (if sty = ''bullet_points''
                    then ''- Limit to approximately '' @ str_int n
                           @ '' words total across all bullet points''
                    else ''- Keep the summary to approximately '' @ str_int n
                           @ '' words or less'') p"
  proof (cases "sty = ''bullet_points''")
    case True
    with line_bullet_points [OF n, of "txt"] show ?thesis
      by (simp add: get_summarization_prompt_cases ml)
  next
    case False
    show ?thesis
    proof (cases "sty = ''detailed''")
      case True
      with line_detailed [OF n, of "txt"] show ?thesis
        by (simp add: get_summarization_prompt_cases ml)
    next
      case False
      with \<open>sty \<noteq> ''bullet_points''\<close> line_concise [OF n, of "txt"] show ?thesis
        by (simp add: get_summarization_prompt_cases ml)
    qed
  qed
qed

theorem length_line_follows_max_length_witness:
  "(\<exists>p. get_summarization_prompt ''This is a test document.'' None ''concise'' = Inr p \<and>
        \<not> sublist ''approximately'' p) \<and>
   (\<exists>p. get_summarization_prompt ''This is a test document.'' (Some 50) ''concise'' = Inr p \<and>
        sublist ''- Keep the summary to approximately 50 words or less'' p)"
proof -
  have clean: "\<not> sublist ''approximately'' ''This is a test document.''"
    by (simp add: sublist_code)
  have fifty: "str_int 50 = ''50''"
    by (simp add: str_int_def str_nat.simps digit_char_def)
  from length_line_follows_max_length
         [of None "''This is a test document.''" "''concise''", THEN conjunct1, THEN mp] clean
  have first: "\<exists>p. get_summarization_prompt ''This is a test document.'' None ''concise'' = Inr p \<and>
        \<not> sublist ''approximately'' p"
    by simp
  from length_line_follows_max_length
         [of "Some 50" "''This is a test document.''" "''concise''" 50,
          THEN conjunct2, THEN mp]
  have second: "\<exists>p. get_summarization_prompt ''This is a test document.'' (Some 50) ''concise'' = Inr p \<and>
        sublist ''- Keep the summary to approximately 50 words or less'' p"
    by (simp add: fifty)
  from first second show ?thesis by (rule conjI)
qed


section \<open>The file-name gate of the PDF routes\<close>

lemma of_char_lower_char:
  "(of_char (lower_char c) :: nat) =
     (if (65 \<le> (of_char c :: nat) \<and> (of_char c :: nat) \<le> 90) \<or>
         (192 \<le> (of_char c :: nat) \<and> (of_char c :: nat) \<le> 222 \<and> (of_char c :: nat) \<noteq> 215)
      then of_char c + 32 else of_char c)"
  by (simp add: lower_char_def Let_def)

lemma of_char_eq_num:
  assumes "(of_char d :: nat) = k"
  shows "(of_char c :: nat) = k \<longleftrightarrow> c = d"
  using of_char_eq_iff [of c d, where ?'a = nat] assms by simp

lemma lower_char_letter:
  assumes "(of_char d :: nat) = k" and "(of_char u :: nat) = k - 32" and "97 \<le> k" and "k \<le> 122"
  shows "lower_char c = d \<longleftrightarrow> c = d \<or> c = u"
proof -
  have "lower_char c = d \<longleftrightarrow> (of_char (lower_char c) :: nat) = k"
    by (simp only: of_char_eq_num [OF assms(1)])
  also have "\<dots> \<longleftrightarrow> (of_char c :: nat) = k \<or> (of_char c :: nat) = k - 32"
    using assms(3,4) by (simp only: of_char_lower_char) (simp, arith)
  also have "\<dots> \<longleftrightarrow> c = d \<or> c = u"
    by (simp only: of_char_eq_num [OF assms(1)] of_char_eq_num [OF assms(2)])
  finally show ?thesis .
qed

lemma lower_char_dot: "lower_char c = CHR ''.'' \<longleftrightarrow> c = CHR ''.''"
proof -
  have k: "(of_char CHR ''.'' :: nat) = 46" by simp
  have "lower_char c = CHR ''.'' \<longleftrightarrow> (of_char (lower_char c) :: nat) = 46"
    by (simp only: of_char_eq_num [OF k])
  also have "\<dots> \<longleftrightarrow> (of_char c :: nat) = 46"
    by (simp only: of_char_lower_char) auto
  also have "\<dots> \<longleftrightarrow> c = CHR ''.''"
    by (simp only: of_char_eq_num [OF k])
  finally show ?thesis .
qed

lemma lower_char_p: "lower_char c = CHR ''p'' \<longleftrightarrow> c = CHR ''p'' \<or> c = CHR ''P''"
  by (rule lower_char_letter [where k = 112]) simp_all

lemma lower_char_d: "lower_char c = CHR ''d'' \<longleftrightarrow> c = CHR ''d'' \<or> c = CHR ''D''"
  by (rule lower_char_letter [where k = 100]) simp_all

lemma lower_char_f: "lower_char c = CHR ''f'' \<longleftrightarrow> c = CHR ''f'' \<or> c = CHR ''F''"
  by (rule lower_char_letter [where k = 102]) simp_all

lemma endswith_iff_suffix: "endswith s suf \<longleftrightarrow> (\<exists>stem. s = stem @ suf)"
proof
  assume "endswith s suf"
  then have "s = take (length s - length suf) s @ suf"
    by (metis append_take_drop_id endswith_def)
  then show "\<exists>stem. s = stem @ suf" ..
next
  assume "\<exists>stem. s = stem @ suf"
  then show "endswith s suf" by (auto simp: endswith_def)
qed

lemma endswith_lower_pdf:
  "endswith (lower fname) ''.pdf'' \<longleftrightarrow>
     (\<exists>stem a b c. fname = stem @ [CHR ''.'', a, b, c] \<and>
        (a = CHR ''p'' \<or> a = CHR ''P'') \<and> (b = CHR ''d'' \<or> b = CHR ''D'') \<and>
        (c = CHR ''f'' \<or> c = CHR ''F''))"
proof
  assume "endswith (lower fname) ''.pdf''"
  then obtain stem' where "map lower_char fname = stem' @ ''.pdf''"
    by (auto simp: endswith_iff_suffix lower_def)
  then obtain stem tail where f: "fname = stem @ tail" and t: "map lower_char tail = ''.pdf''"
    by (auto simp: map_eq_append_conv)
  from t obtain w a b c where tail: "tail = [w, a, b, c]"
    and "lower_char w = CHR ''.''" "lower_char a = CHR ''p''"
    "lower_char b = CHR ''d''" "lower_char c = CHR ''f''"
    by (auto simp: map_eq_Cons_conv)
  then show "\<exists>stem a b c. fname = stem @ [CHR ''.'', a, b, c] \<and>
        (a = CHR ''p'' \<or> a = CHR ''P'') \<and> (b = CHR ''d'' \<or> b = CHR ''D'') \<and>
        (c = CHR ''f'' \<or> c = CHR ''F'')"
    using f by (simp only: lower_char_dot lower_char_p lower_char_d lower_char_f) blast
next
  assume "\<exists>stem a b c. fname = stem @ [CHR ''.'', a, b, c] \<and>
        (a = CHR ''p'' \<or> a = CHR ''P'') \<and> (b = CHR ''d'' \<or> b = CHR ''D'') \<and>
        (c = CHR ''f'' \<or> c = CHR ''F'')"
  then obtain stem a b c where f: "fname = stem @ [CHR ''.'', a, b, c]"
    and "lower_char a = CHR ''p''" "lower_char b = CHR ''d''" "lower_char c = CHR ''f''"
    by (auto simp only: lower_char_p lower_char_d lower_char_f)
  moreover have "lower_char CHR ''.'' = CHR ''.''"
    by (simp only: lower_char_dot)
  ultimately have "lower fname = lower stem @ ''.pdf''"
    by (simp add: lower_def)
  then show "endswith (lower fname) ''.pdf''"
    by (simp only: endswith_iff_suffix) blast
qed

lemma pdf_route_error_not_gate:
  "pdf_route_error pre e \<noteq> HTTPException 400 ''Only PDF files are supported''"
  by (cases e) (simp_all add: pdf_route_error_def)

lemma summarize_pdf_gate:
  assumes "filename file = Some fname"
  shows "snd (summarize_pdf cfg model lib file ml sty) =
           Inl (HTTPException 400 ''Only PDF files are supported'')
         \<longleftrightarrow> \<not> endswith (lower fname) ''.pdf''"
  using assms
  by (simp add: summarize_pdf_def pdf_route_error_not_gate split: sum.splits prod.splits)

lemma query_pdf_gate:
  assumes "filename file = Some fname"
  shows "snd (query_pdf cfg model lib file q incl) =
           Inl (HTTPException 400 ''Only PDF files are supported'')
         \<longleftrightarrow> strip q \<noteq> [] \<and> \<not> endswith (lower fname) ''.pdf''"
  using assms
  by (simp add: query_pdf_def pdf_route_error_not_gate split: sum.splits prod.splits)

text \<open>
  C10, as stated, fails on \<open>POST /query-pdf\<close>: the question is checked before the file
  name, so with a blank question and the file name \<open>notes.txt\<close>, whose lower-case form
  does not end with \<open>.pdf\<close>, the rejection is \<open>Question cannot be empty\<close>.
\<close>

theorem blank_question_precedes_gate_counterexample:
  "\<not> endswith (lower ''notes.txt'') ''.pdf'' \<and>
   snd (query_pdf \<lparr>debug = True, max_tokens = 2048, temperature = 7 / 10\<rparr>
          (\<lambda>req. Completion ''ok'') (\<lambda>b. Inl ''not a PDF'')
          \<lparr>filename = Some ''notes.txt'', file_content = []\<rparr> ''  '' False)
   = Inl (HTTPException 400 ''Question cannot be empty'')"
proof (rule conjI)
  show "\<not> endswith (lower ''notes.txt'') ''.pdf''"
    by code_simp
  show "snd (query_pdf \<lparr>debug = True, max_tokens = 2048, temperature = 7 / 10\<rparr>
          (\<lambda>req. Completion ''ok'') (\<lambda>b. Inl ''not a PDF'')
          \<lparr>filename = Some ''notes.txt'', file_content = []\<rparr> ''  '' False)
   = Inl (HTTPException 400 ''Question cannot be empty'')"
    by (simp add: query_pdf_def strip_def isspace_def)
qed

text \<open>
  C10, amended: for every uploaded file name, \<open>POST /summarize-pdf\<close> answers with the 400
  \<open>Only PDF files are supported\<close> exactly when the lower-cased name does not end with
  \<open>.pdf\<close>, and \<open>POST /query-pdf\<close> exactly when, in addition, the question is not blank.
  The check is case-insensitive: the lower-cased name ends with \<open>.pdf\<close> exactly when the
  name ends with a dot followed by \<open>p\<close> or \<open>P\<close>, \<open>d\<close> or \<open>D\<close>, \<open>f\<close> or \<open>F\<close>.
\<close>

theorem pdf_suffix_gate:
  assumes "filename file = Some fname"
  shows "(snd (summarize_pdf cfg model lib file ml sty) =
            Inl (HTTPException 400 ''Only PDF files are supported'')
          \<longleftrightarrow> \<not> endswith (lower fname) ''.pdf'') \<and>
         (snd (query_pdf cfg model lib file q incl) =
            Inl (HTTPException 400 ''Only PDF files are supported'')
          \<longleftrightarrow> strip q \<noteq> [] \<and> \<not> endswith (lower fname) ''.pdf'') \<and>
         (endswith (lower fname) ''.pdf'' \<longleftrightarrow>
            (\<exists>stem a b c. fname = stem @ [CHR ''.'', a, b, c] \<and>
               (a = CHR ''p'' \<or> a = CHR ''P'') \<and> (b = CHR ''d'' \<or> b = CHR ''D'') \<and>
               (c = CHR ''f'' \<or> c = CHR ''F'')))"
  by (intro conjI summarize_pdf_gate [OF assms] query_pdf_gate [OF assms] endswith_lower_pdf)

theorem pdf_suffix_gate_witness:
  "snd (summarize_pdf \<lparr>debug = True, max_tokens = 2048, temperature = 7 / 10\<rparr>
          (\<lambda>req. Completion ''ok'') (\<lambda>b. Inl ''not a PDF'')
          \<lparr>filename = Some ''REPORT.PDF'', file_content = []\<rparr> None ''concise'')
   \<noteq> Inl (HTTPException 400 ''Only PDF files are supported'') \<and>
   snd (summarize_pdf \<lparr>debug = True, max_tokens = 2048, temperature = 7 / 10\<rparr>
          (\<lambda>req. Completion ''ok'') (\<lambda>b. Inl ''not a PDF'')
          \<lparr>filename = Some ''notes.txt'', file_content = []\<rparr> None ''concise'')
   = Inl (HTTPException 400 ''Only PDF files are supported'')"
proof -
  let ?cfg = "\<lparr>debug = True, max_tokens = 2048, temperature = 7 / 10\<rparr>"
  let ?model = "\<lambda>req :: generation_request. Completion ''ok''"
  let ?lib = "\<lambda>b :: bytes. Inl ''not a PDF'' :: string + reader"
  let ?report = "\<lparr>filename = Some ''REPORT.PDF'', file_content = []\<rparr>"
  let ?notes = "\<lparr>filename = Some ''notes.txt'', file_content = []\<rparr>"
  have report: "filename ?report = Some ''REPORT.PDF''"
    by simp
  have other: "filename ?notes = Some ''notes.txt''"
    by simp
  have no_suffix: "\<not> endswith (lower ''notes.txt'') ''.pdf''"
    by code_simp
  from pdf_suffix_gate [OF report, of ?cfg ?model ?lib None "''concise''", THEN conjunct1]
    report_pdf_suffix
  have first: "snd (summarize_pdf ?cfg ?model ?lib ?report None ''concise'')
               \<noteq> Inl (HTTPException 400 ''Only PDF files are supported'')"
    by (simp only: simp_thms not_False_eq_True)
  from pdf_suffix_gate [OF other, of ?cfg ?model ?lib None "''concise''", THEN conjunct1]
    no_suffix
  have second: "snd (summarize_pdf ?cfg ?model ?lib ?notes None ''concise'')
                = Inl (HTTPException 400 ''Only PDF files are supported'')"
    by (simp only: simp_thms)
  from first second show ?thesis by (rule conjI)
qed

end
